theory Spec2Isabelle
  imports Complex_Main "HOL-Library.Word"
begin

section \<open>Flashy Flesh firmware: data model\<close>

text \<open>
  The embedding follows \<^verbatim>\<open>firmware/main.ino\<close>. Conventions:
  \<^item> a C++ \<^verbatim>\<open>float\<close> is an exact real number (no rounding, no NaN, no infinity);
    comparisons and \<^verbatim>\<open>min\<close> are exact on floats anyway;
  \<^item> \<^verbatim>\<open>unsigned long\<close> is 32 bits on the ESP32 and is a \<open>32 word\<close>,
    \<^verbatim>\<open>uint8_t\<close> is an \<open>8 word\<close>;
  \<^item> a conversion \<^verbatim>\<open>(int)x\<close> truncates towards zero and
    \<^verbatim>\<open>(uint64_t)x\<close> of a positive \<open>x\<close> is its floor; the results are kept as
    unbounded integers (C++ leaves the conversion undefined outside the target range);
  \<^item> the hardware is a record of what the firmware last wrote: the duty per first
    argument of \<^verbatim>\<open>ledcWrite\<close> (the sketch passes 0 for the strobe and the pin numbers
    for the motors and the spotlights), the level per pin of \<^verbatim>\<open>digitalWrite\<close>, the
    value per pin of \<^verbatim>\<open>analogWrite\<close>, the alarm of the strobe timer, the LED buffer,
    the FastLED brightness and the LED buffer as last pushed by \<^verbatim>\<open>FastLED.show()\<close>.
\<close>

subsection \<open>Pins and constants\<close>

definition MOTOR1_PWM :: nat where "MOTOR1_PWM = 25"
definition MOTOR1_DIR :: nat where "MOTOR1_DIR = 26"
definition MOTOR2_PWM :: nat where "MOTOR2_PWM = 27"
definition MOTOR2_DIR :: nat where "MOTOR2_DIR = 14"
definition MOTOR3_PWM :: nat where "MOTOR3_PWM = 12"
definition MOTOR3_DIR :: nat where "MOTOR3_DIR = 13"
definition NUM_LEDS :: nat where "NUM_LEDS = 200"
definition SPOT_R_PIN :: nat where "SPOT_R_PIN = 4"
definition SPOT_G_PIN :: nat where "SPOT_G_PIN = 16"
definition SPOT_B_PIN :: nat where "SPOT_B_PIN = 17"
definition CONSENT_LED :: nat where "CONSENT_LED = 22"

definition STROBE_MAX_HZ :: real where "STROBE_MAX_HZ = 4"
definition SESSION_MAX_S :: int where "SESSION_MAX_S = 660"
definition FADE_OUT_S :: int where "FADE_OUT_S = 120"

lemmas pin_defs =
  MOTOR1_PWM_def MOTOR1_DIR_def MOTOR2_PWM_def MOTOR2_DIR_def MOTOR3_PWM_def
  MOTOR3_DIR_def SPOT_R_PIN_def SPOT_G_PIN_def SPOT_B_PIN_def CONSENT_LED_def

subsection \<open>The machine state and the hardware\<close>

record MachineState =
  disk1_rpm :: real
  disk2_rpm :: real
  disk3_rpm :: real
  strobe_hz :: real
  strobe_int :: real
  spot_r :: "8 word"
  spot_g :: "8 word"
  spot_b :: "8 word"
  led_bright :: real
  active :: bool
  consent :: bool
  session_start :: "32 word"
  preset_name :: string

text \<open>The initial value of the global \<^verbatim>\<open>state\<close> (the member initialisers of the struct).\<close>

definition initial_state :: MachineState where
  "initial_state = \<lparr>disk1_rpm = 0, disk2_rpm = 0, disk3_rpm = 0, strobe_hz = 0,
     strobe_int = 0, spot_r = 0, spot_g = 0, spot_b = 0, led_bright = 1,
     active = False, consent = False, session_start = 0, preset_name = ''idle''\<rparr>"

datatype CRGB = CRGB "8 word" "8 word" "8 word"

definition Black :: CRGB where "Black = CRGB 0 0 0"

record Hardware =
  ledc :: "nat \<Rightarrow> int"
  dpin :: "nat \<Rightarrow> bool"
  analog :: "nat \<Rightarrow> int"
  alarm_period_us :: nat
  alarm_enabled :: bool
  leds :: "CRGB list"
  fl_brightness :: int
  shown :: "CRGB list"

subsection \<open>Hardware writes\<close>

definition ledcWrite :: "nat \<Rightarrow> int \<Rightarrow> Hardware \<Rightarrow> Hardware" where
  "ledcWrite ch duty h = h\<lparr>ledc := (ledc h)(ch := duty)\<rparr>"

definition digitalWrite :: "nat \<Rightarrow> bool \<Rightarrow> Hardware \<Rightarrow> Hardware" where
  "digitalWrite pin lvl h = h\<lparr>dpin := (dpin h)(pin := lvl)\<rparr>"

definition analogWrite :: "nat \<Rightarrow> int \<Rightarrow> Hardware \<Rightarrow> Hardware" where
  "analogWrite pin v h = h\<lparr>analog := (analog h)(pin := v)\<rparr>"

definition fill_solid :: "nat \<Rightarrow> CRGB \<Rightarrow> Hardware \<Rightarrow> Hardware" where
  "fill_solid n c h = h\<lparr>leds := replicate n c @ drop n (leds h)\<rparr>"

definition FastLED_show :: "Hardware \<Rightarrow> Hardware" where
  "FastLED_show h = h\<lparr>shown := leds h\<rparr>"

definition FastLED_setBrightness :: "int \<Rightarrow> Hardware \<Rightarrow> Hardware" where
  "FastLED_setBrightness b h = h\<lparr>fl_brightness := b\<rparr>"

text \<open>\<^verbatim>\<open>(int)x\<close> on a float: truncation towards zero.\<close>

definition to_int :: "real \<Rightarrow> int" where
  "to_int x = (if 0 \<le> x then \<lfloor>x\<rfloor> else \<lceil>x\<rceil>)"

section \<open>Strobe timer and motors\<close>

text \<open>
  \<^verbatim>\<open>
  void setStrobeFrequency(float hz) {
    if (hz <= 0) { ledcWrite(0, 0); return; }
    hz = min(hz, STROBE_MAX_HZ);  // Hardware safety cap
    uint64_t period_us = (uint64_t)(1000000.0 / hz);
    timerAlarmWrite(strobe_timer, period_us, true);
    timerAlarmEnable(strobe_timer);
  }
  \<close>
\<close>

definition setStrobeFrequency :: "real \<Rightarrow> Hardware \<Rightarrow> Hardware" where
  "setStrobeFrequency hz h =
     (if hz \<le> 0 then ledcWrite 0 0 h
      else let hz' = min hz STROBE_MAX_HZ;
               period_us = nat \<lfloor>1000000 / hz'\<rfloor>
           in h\<lparr>alarm_period_us := period_us, alarm_enabled := True\<rparr>)"

text \<open>
  \<^verbatim>\<open>
  void setMotorRPM(int pwm_pin, int dir_pin, float rpm) {
    bool forward = rpm >= 0;
    int duty = (int)(abs(rpm) / 15.0 * 255.0);  // 15 RPM = max duty
    duty = constrain(duty, 0, 255);
    digitalWrite(dir_pin, forward ? HIGH : LOW);
    ledcWrite(pwm_pin, duty);
  }
  \<close>
\<close>

definition constrain :: "int \<Rightarrow> int \<Rightarrow> int \<Rightarrow> int" where
  "constrain x lo hi = (if x < lo then lo else if hi < x then hi else x)"

definition setMotorRPM :: "nat \<Rightarrow> nat \<Rightarrow> real \<Rightarrow> Hardware \<Rightarrow> Hardware" where
  "setMotorRPM pwm_pin dir_pin rpm h =
     (let forward = (0 \<le> rpm);
          duty = constrain (to_int (\<bar>rpm\<bar> / 15 * 255)) 0 255
      in ledcWrite pwm_pin duty (digitalWrite dir_pin forward h))"

section \<open>Applying the state to the hardware\<close>

text \<open>
  \<open>applyState now (s, h)\<close> is \<^verbatim>\<open>applyState()\<close> run when \<^verbatim>\<open>millis()\<close> reads \<open>now\<close>,
  on the global state \<open>s\<close> and the hardware \<open>h\<close>. The three exits of the source are the
  three branches: inactive (everything the branch writes is switched off), session
  cut-off (\<^verbatim>\<open>state.active = false; return;\<close> with no hardware write), and the normal
  output with the fade-out of the last \<open>FADE_OUT_S\<close> seconds. \<open>session_expired\<close> is
  the test of the cut-off and \<open>faded_brightness\<close> the value of the local
  \<^verbatim>\<open>brightness\<close> when the outputs are written.
\<close>

definition elapsed_s :: "32 word \<Rightarrow> 32 word \<Rightarrow> 32 word" where
  "elapsed_s now start = (now - start) div 1000"

definition faded_brightness :: "32 word \<Rightarrow> MachineState \<Rightarrow> real" where
  "faded_brightness now s =
     (let brightness = led_bright s in
      if session_start s > 0 then
        let elapsed = elapsed_s now (session_start s) in
        if elapsed > word_of_int (SESSION_MAX_S - FADE_OUT_S) then
          let fade_progress =
                real (unat (elapsed - word_of_int (SESSION_MAX_S - FADE_OUT_S)))
                  / real_of_int FADE_OUT_S
          in brightness * (1 - fade_progress)
        else brightness
      else brightness)"

definition session_expired :: "32 word \<Rightarrow> MachineState \<Rightarrow> bool" where
  "session_expired now s =
     (session_start s > 0 \<and> elapsed_s now (session_start s) > word_of_int SESSION_MAX_S)"

definition applyState :: "32 word \<Rightarrow> MachineState \<times> Hardware \<Rightarrow> MachineState \<times> Hardware" where
  "applyState now sh =
     (let s = fst sh; h = snd sh in
      if \<not> active s then
        (s, FastLED_show (fill_solid NUM_LEDS Black (setStrobeFrequency 0
              (setMotorRPM MOTOR3_PWM MOTOR3_DIR 0
              (setMotorRPM MOTOR2_PWM MOTOR2_DIR 0
              (setMotorRPM MOTOR1_PWM MOTOR1_DIR 0 h))))))
      else if session_expired now s then (s\<lparr>active := False\<rparr>, h)
      else
        let brightness = faded_brightness now s;
            h1 = setMotorRPM MOTOR1_PWM MOTOR1_DIR (disk1_rpm s) h;
            h2 = setMotorRPM MOTOR2_PWM MOTOR2_DIR (- disk2_rpm s) h1;
            h3 = setMotorRPM MOTOR3_PWM MOTOR3_DIR (disk3_rpm s) h2;
            h4 = setStrobeFrequency (min (strobe_hz s) STROBE_MAX_HZ) h3;
            h5 = ledcWrite SPOT_R_PIN (to_int (real (unat (spot_r s)) * brightness)) h4;
            h6 = ledcWrite SPOT_G_PIN (to_int (real (unat (spot_g s)) * brightness)) h5;
            h7 = ledcWrite SPOT_B_PIN (to_int (real (unat (spot_b s)) * brightness)) h6
        in (s, FastLED_setBrightness (to_int (255 * brightness)) h7))"

section \<open>Presets\<close>

text \<open>
  \<^verbatim>\<open>loadPreset\<close> stores the requested name first and then overwrites the preset fields
  when the name is one of the five built-in presets; it has no other branch and returns
  nothing.
\<close>

definition loadPreset :: "string \<Rightarrow> MachineState \<Rightarrow> MachineState" where
  "loadPreset name s0 =
     (let s = s0\<lparr>preset_name := name\<rparr> in
      if name = ''alpha_bloom'' then
        s\<lparr>disk1_rpm := 10, disk2_rpm := 10.6, disk3_rpm := 2,
          strobe_hz := 0.5, strobe_int := 0.6,
          spot_r := 0, spot_g := 80, spot_b := 120\<rparr>
      else if name = ''theta_dive'' then
        s\<lparr>disk1_rpm := 6, disk2_rpm := 6.35, disk3_rpm := 1.5,
          strobe_hz := 0.3, strobe_int := 0.7,
          spot_r := 40, spot_g := 0, spot_b := 120\<rparr>
      else if name = ''oceanic'' then
        s\<lparr>disk1_rpm := 4, disk2_rpm := 4.2, disk3_rpm := 1,
          strobe_hz := 0.1, strobe_int := 0.4,
          spot_r := 0, spot_g := 20, spot_b := 100\<rparr>
      else if name = ''gamma_flash'' then
        s\<lparr>disk1_rpm := 12, disk2_rpm := 12.7, disk3_rpm := 3,
          strobe_hz := 3.0, strobe_int := 1.0,
          spot_r := 200, spot_g := 200, spot_b := 200\<rparr>
      else if name = ''integration'' then
        s\<lparr>disk1_rpm := 7, disk2_rpm := 7.4, disk3_rpm := 2,
          strobe_hz := 0, strobe_int := 0,
          spot_r := 100, spot_g := 60, spot_b := 10\<rparr>
      else s)"

definition known_presets :: "string list" where
  "known_presets = [''alpha_bloom'', ''theta_dive'', ''oceanic'', ''gamma_flash'', ''integration'']"

section \<open>The running firmware\<close>

text \<open>
  The globals of the sketch and the clock: \<open>clock\<close> is the time since boot in
  milliseconds and \<^verbatim>\<open>millis()\<close> reads it modulo \<open>2 ^ 32\<close>. Only \<^verbatim>\<open>delay\<close> advances
  the clock; every other statement takes no time.
\<close>

record World =
  state :: MachineState
  hw :: Hardware
  strobe_pulse :: bool
  clock :: nat

definition millis :: "World \<Rightarrow> 32 word" where
  "millis w = of_nat (clock w)"

definition delay :: "nat \<Rightarrow> World \<Rightarrow> World" where
  "delay ms w = w\<lparr>clock := clock w + ms\<rparr>"

text \<open>\<^verbatim>\<open>applyState()\<close> on the globals.\<close>

definition run_applyState :: "World \<Rightarrow> World" where
  "run_applyState w =
     (let sh = applyState (millis w) (state w, hw w) in w\<lparr>state := fst sh, hw := snd sh\<rparr>)"

subsection \<open>The strobe timer interrupt\<close>



subsection \<open>The web server\<close>

text \<open>
  A request as the handlers see it. For \<^verbatim>\<open>POST /preset\<close>: \<open>None\<close> when the request has
  no body (\<^verbatim>\<open>server.hasArg("plain")\<close> is false), \<open>Some None\<close> when the body has no
  \<^verbatim>\<open>name\<close> (the handler takes \<^verbatim>\<open>"alpha_bloom"\<close>), \<open>Some (Some n)\<close> when it names \<open>n\<close>.
\<close>

datatype Request = GetRoot | PostPreset "string option option" | PostScript | PostStop

datatype Response =
    StatusJson bool string real real real real real
  | Reply nat string

definition handleRequest :: "Request \<Rightarrow> World \<Rightarrow> World \<times> Response" where
  \<open>handleRequest r w =
     (case r of
        GetRoot \<Rightarrow>
          (w, StatusJson (active (state w)) (preset_name (state w)) (disk1_rpm (state w))
                (disk2_rpm (state w)) (disk3_rpm (state w)) (strobe_hz (state w)) STROBE_MAX_HZ)
      | PostPreset None \<Rightarrow> (w, Reply 400 ''{"error":"no body"}'')
      | PostPreset (Some body) \<Rightarrow>
          (let name = (case body of None \<Rightarrow> ''alpha_bloom'' | Some n \<Rightarrow> n)
           in (w\<lparr>state := loadPreset name (state w)\<rparr>, Reply 200 ''{"ok":true}''))
      | PostScript \<Rightarrow> (w, Reply 200 ''{"ok":true,"note":"script queued"}'')
      | PostStop \<Rightarrow>
          (run_applyState (w\<lparr>state := (state w)\<lparr>active := False\<rparr>\<rparr>), Reply 200 ''{"ok":true}''))\<close>


subsection \<open>Buttons\<close>

text \<open>
  The three buttons as functions of time: \<open>True\<close> at \<open>t\<close> when \<^verbatim>\<open>digitalRead\<close> of the
  pin gives \<^verbatim>\<open>LOW\<close> (pressed) at millisecond \<open>t\<close>.
\<close>

record Inputs =
  consent_btn :: "nat \<Rightarrow> bool"
  enc1_btn :: "nat \<Rightarrow> bool"
  enc2_btn :: "nat \<Rightarrow> bool"

subsection \<open>The consent gate\<close>

text \<open>
  \<^verbatim>\<open>
  void checkConsentButton() {
    if (digitalRead(CONSENT_BTN) == LOW) {
      unsigned long press_start = millis();
      while (digitalRead(CONSENT_BTN) == LOW) {
        unsigned long held = millis() - press_start;
        int brightness = (int)(held / 3000.0 * 255);
        analogWrite(CONSENT_LED, brightness);
        if (held >= 3000) {
          state.active = true;
          state.consent = true;
          state.session_start = millis();
          loadPreset("alpha_bloom");  // Default on consent
          analogWrite(CONSENT_LED, 255);
          return;
        }
        delay(20);
      }
      analogWrite(CONSENT_LED, 0);  // Released too soon
    }
  }
  \<close>
  \<open>consent_hold\<close> is the \<^verbatim>\<open>while\<close> loop with what follows it. The loop ends: each
  round adds 20 ms to \<open>held\<close>, and it returns once \<open>held\<close> reaches 3000.
\<close>

lemma held_step:
  fixes now start :: "32 word"
  assumes "\<not> 3000 \<le> now - start"
  shows "unat (now + 20 - start) = unat (now - start) + 20"
proof -
  have lt: "unat (now - start) < 3000"
    using assms by (simp add: word_le_nat_alt not_le)
  have e: "now + 20 - start = (now - start) + 20" by simp
  have "unat ((now - start) + 20) = unat (now - start) + unat (20 :: 32 word)"
    using lt by (intro unat_add_lem [THEN iffD1]) simp
  then show ?thesis unfolding e by simp
qed

function consent_hold :: "(nat \<Rightarrow> bool) \<Rightarrow> 32 word \<Rightarrow> World \<Rightarrow> World" where
  "consent_hold btn press_start w =
     (if btn (clock w) then
        let held = millis w - press_start;
            brightness = to_int (real (unat held) / 3000 * 255);
            w1 = w\<lparr>hw := analogWrite CONSENT_LED brightness (hw w)\<rparr>
        in if held \<ge> 3000 then
             let s1 = (state w1)\<lparr>active := True, consent := True, session_start := millis w1\<rparr>;
                 s2 = loadPreset ''alpha_bloom'' s1
             in w1\<lparr>state := s2, hw := analogWrite CONSENT_LED 255 (hw w1)\<rparr>
           else consent_hold btn press_start (delay 20 w1)
      else w\<lparr>hw := analogWrite CONSENT_LED 0 (hw w)\<rparr>)"
  by pat_completeness auto
termination
proof (relation "measure (\<lambda>(btn, press_start, w). 3000 - unat (millis w - press_start))")
  show "wf (measure (\<lambda>(btn :: nat \<Rightarrow> bool, press_start, w). 3000 - unat (millis w - press_start)))"
    by simp
next
  fix btn :: "nat \<Rightarrow> bool" and press_start w x xa xb
  assume a: "\<not> 3000 \<le> x" "x = millis w - press_start"
    and xb: "xb = w\<lparr>hw := analogWrite CONSENT_LED xa (hw w)\<rparr>"
  have m: "millis (delay 20 xb) = millis w + 20"
    by (simp add: millis_def delay_def xb)
  have "unat (millis w + 20 - press_start) = unat (millis w - press_start) + 20"
    using a by (intro held_step) simp
  moreover have "unat (millis w - press_start) < 3000"
    using a by (simp add: word_le_nat_alt not_le)
  ultimately show "((btn, press_start, delay 20 xb), btn, press_start, w)
       \<in> measure (\<lambda>(btn, press_start, w). 3000 - unat (millis w - press_start))"
    by (simp add: m)
qed

declare consent_hold.simps [simp del]

definition checkConsentButton :: "Inputs \<Rightarrow> World \<Rightarrow> World" where
  "checkConsentButton inp w =
     (if consent_btn inp (clock w) then consent_hold (consent_btn inp) (millis w) w else w)"

subsection \<open>The emergency stop\<close>

text \<open>
  \<^verbatim>\<open>
  void checkEmergencyStop() {
    if (digitalRead(ENC1_BTN) == LOW && digitalRead(ENC2_BTN) == LOW) {
      state.active = false;
      state.consent = false;
      applyState();
      // Debounce
      while (digitalRead(ENC1_BTN) == LOW || digitalRead(ENC2_BTN) == LOW) delay(10);
    }
  }
  \<close>
  The debounce loop waits until both buttons are released and never returns while one
  of them stays pressed: \<open>debounce\<close> is \<open>None\<close> then. \<open>emergency_stop\<close> is what the
  function has done when it enters the debounce loop.
\<close>

partial_function (option) debounce :: "Inputs \<Rightarrow> World \<Rightarrow> World option" where
  "debounce inp w =
     (if enc1_btn inp (clock w) \<or> enc2_btn inp (clock w) then debounce inp (delay 10 w)
      else Some w)"

definition emergency_stop :: "World \<Rightarrow> World" where
  "emergency_stop w = run_applyState (w\<lparr>state := (state w)\<lparr>active := False, consent := False\<rparr>\<rparr>)"

definition checkEmergencyStop :: "Inputs \<Rightarrow> World \<Rightarrow> World option" where
  "checkEmergencyStop inp w =
     (if enc1_btn inp (clock w) \<and> enc2_btn inp (clock w) then debounce inp (emergency_stop w)
      else Some w)"

subsection \<open>The main loop\<close>




section \<open>Specification-side definitions and sample inputs\<close>

text \<open>
  The hardware as \<^verbatim>\<open>setup()\<close> leaves it: every output off, the timer alarm not yet
  enabled, the LED buffer black and shown, the FastLED brightness 0.
\<close>

definition initial_hw :: Hardware where
  "initial_hw = \<lparr>ledc = (\<lambda>_. 0), dpin = (\<lambda>_. False), analog = (\<lambda>_. 0),
     alarm_period_us = 0, alarm_enabled = False, leds = replicate NUM_LEDS Black,
     fl_brightness = 0, shown = replicate NUM_LEDS Black\<rparr>"




text \<open>
  A running machine: the state after consent at 3000 ms with the preset
  \<^verbatim>\<open>gamma_flash\<close> loaded, and the hardware after one \<^verbatim>\<open>applyState()\<close> of it.
\<close>

definition gamma_state :: MachineState where
  "gamma_state = (loadPreset ''gamma_flash'' initial_state)\<lparr>active := True, consent := True, session_start := 3000\<rparr>"

definition running_hw :: Hardware where
  "running_hw = snd (applyState 3020 (gamma_state, initial_hw))"

text \<open>The hardware after the tick at 660 s of that session, the last one before the cut-off.\<close>

definition fading_hw :: Hardware where
  "fading_hw = snd (applyState 663000 (gamma_state, running_hw))"

text \<open>
  The running machine as a world at 100 s, and encoder buttons both pressed then and
  released 30 ms and 50 ms later.
\<close>

definition running_world :: World where
  "running_world = \<lparr>state = gamma_state, hw = running_hw, strobe_pulse = False, clock = 100000\<rparr>"

definition estop_inputs :: Inputs where
  "estop_inputs = \<lparr>consent_btn = (\<lambda>t. False), enc1_btn = (\<lambda>t. t < 100050),
     enc2_btn = (\<lambda>t. t < 100030)\<rparr>"

text \<open>
  Consent buttons: held without end, and released just before the hold reaches
  3000 ms; inputs with no button pressed; a pass of the loop in which the timer alarm fires at every point; the
  running machine after \<^verbatim>\<open>POST /stop\<close>, and with a stored strobe frequency of 9 Hz.
\<close>

definition hold_inputs :: Inputs where
  "hold_inputs = \<lparr>consent_btn = (\<lambda>t. True), enc1_btn = (\<lambda>t. False), enc2_btn = (\<lambda>t. False)\<rparr>"

definition short_hold_inputs :: Inputs where
  "short_hold_inputs = \<lparr>consent_btn = (\<lambda>t. t < 102990), enc1_btn = (\<lambda>t. False), enc2_btn = (\<lambda>t. False)\<rparr>"







section \<open>What each hardware write leaves behind\<close>

lemma ledcWrite_sel:
  "ledc (ledcWrite c d h) x = (if x = c then d else ledc h x)"
  "dpin (ledcWrite c d h) = dpin h" "analog (ledcWrite c d h) = analog h"
  "alarm_period_us (ledcWrite c d h) = alarm_period_us h"
  "alarm_enabled (ledcWrite c d h) = alarm_enabled h"
  "leds (ledcWrite c d h) = leds h" "fl_brightness (ledcWrite c d h) = fl_brightness h"
  "shown (ledcWrite c d h) = shown h"
  by (simp_all add: ledcWrite_def)

lemma digitalWrite_sel:
  "dpin (digitalWrite p l h) x = (if x = p then l else dpin h x)"
  "ledc (digitalWrite p l h) = ledc h" "analog (digitalWrite p l h) = analog h"
  "alarm_period_us (digitalWrite p l h) = alarm_period_us h"
  "alarm_enabled (digitalWrite p l h) = alarm_enabled h"
  "leds (digitalWrite p l h) = leds h" "fl_brightness (digitalWrite p l h) = fl_brightness h"
  "shown (digitalWrite p l h) = shown h"
  by (simp_all add: digitalWrite_def)

lemma setMotorRPM_sel:
  "ledc (setMotorRPM p d r h) x =
     (if x = p then constrain (to_int (\<bar>r\<bar> / 15 * 255)) 0 255 else ledc h x)"
  "dpin (setMotorRPM p d r h) x = (if x = d then 0 \<le> r else dpin h x)"
  "analog (setMotorRPM p d r h) = analog h"
  "alarm_period_us (setMotorRPM p d r h) = alarm_period_us h"
  "alarm_enabled (setMotorRPM p d r h) = alarm_enabled h"
  "leds (setMotorRPM p d r h) = leds h" "fl_brightness (setMotorRPM p d r h) = fl_brightness h"
  "shown (setMotorRPM p d r h) = shown h"
  by (simp_all add: setMotorRPM_def Let_def ledcWrite_sel digitalWrite_sel)

lemma setStrobeFrequency_sel:
  "ledc (setStrobeFrequency f h) x = (if f \<le> 0 \<and> x = 0 then 0 else ledc h x)"
  "dpin (setStrobeFrequency f h) = dpin h" "analog (setStrobeFrequency f h) = analog h"
  "alarm_period_us (setStrobeFrequency f h) =
     (if f \<le> 0 then alarm_period_us h else nat \<lfloor>1000000 / min f STROBE_MAX_HZ\<rfloor>)"
  "alarm_enabled (setStrobeFrequency f h) = (f \<le> 0 \<longrightarrow> alarm_enabled h)"
  "leds (setStrobeFrequency f h) = leds h" "fl_brightness (setStrobeFrequency f h) = fl_brightness h"
  "shown (setStrobeFrequency f h) = shown h"
  by (simp_all add: setStrobeFrequency_def Let_def ledcWrite_sel)

lemma FastLED_sel:
  "ledc (fill_solid n c h) = ledc h" "dpin (fill_solid n c h) = dpin h"
  "analog (fill_solid n c h) = analog h"
  "alarm_period_us (fill_solid n c h) = alarm_period_us h"
  "alarm_enabled (fill_solid n c h) = alarm_enabled h"
  "leds (fill_solid n c h) = replicate n c @ drop n (leds h)"
  "fl_brightness (fill_solid n c h) = fl_brightness h" "shown (fill_solid n c h) = shown h"
  "ledc (FastLED_show h) = ledc h" "dpin (FastLED_show h) = dpin h"
  "analog (FastLED_show h) = analog h"
  "alarm_period_us (FastLED_show h) = alarm_period_us h"
  "alarm_enabled (FastLED_show h) = alarm_enabled h"
  "leds (FastLED_show h) = leds h" "fl_brightness (FastLED_show h) = fl_brightness h"
  "shown (FastLED_show h) = leds h"
  "ledc (FastLED_setBrightness b h) = ledc h" "dpin (FastLED_setBrightness b h) = dpin h"
  "analog (FastLED_setBrightness b h) = analog h"
  "alarm_period_us (FastLED_setBrightness b h) = alarm_period_us h"
  "alarm_enabled (FastLED_setBrightness b h) = alarm_enabled h"
  "leds (FastLED_setBrightness b h) = leds h" "fl_brightness (FastLED_setBrightness b h) = b"
  "shown (FastLED_setBrightness b h) = shown h"
  by (simp_all add: fill_solid_def FastLED_show_def FastLED_setBrightness_def)

lemmas hw_sel = ledcWrite_sel digitalWrite_sel setMotorRPM_sel setStrobeFrequency_sel FastLED_sel

section \<open>The three branches of applyState\<close>

lemma applyState_inactive:
  assumes "\<not> active s"
  shows "applyState now (s, h) =
    (s, FastLED_show (fill_solid NUM_LEDS Black (setStrobeFrequency 0
              (setMotorRPM MOTOR3_PWM MOTOR3_DIR 0
              (setMotorRPM MOTOR2_PWM MOTOR2_DIR 0
              (setMotorRPM MOTOR1_PWM MOTOR1_DIR 0 h))))))"
  using assms by (simp add: applyState_def)

lemma applyState_cutoff:
  assumes "active s" "session_expired now s"
  shows "applyState now (s, h) = (s\<lparr>active := False\<rparr>, h)"
  using assms by (simp add: applyState_def)

lemma applyState_running:
  assumes "active s" "\<not> session_expired now s"
  shows "applyState now (s, h) =
    (s, FastLED_setBrightness (to_int (255 * faded_brightness now s))
         (ledcWrite SPOT_B_PIN (to_int (real (unat (spot_b s)) * faded_brightness now s))
         (ledcWrite SPOT_G_PIN (to_int (real (unat (spot_g s)) * faded_brightness now s))
         (ledcWrite SPOT_R_PIN (to_int (real (unat (spot_r s)) * faded_brightness now s))
         (setStrobeFrequency (min (strobe_hz s) STROBE_MAX_HZ)
         (setMotorRPM MOTOR3_PWM MOTOR3_DIR (disk3_rpm s)
         (setMotorRPM MOTOR2_PWM MOTOR2_DIR (- disk2_rpm s)
         (setMotorRPM MOTOR1_PWM MOTOR1_DIR (disk1_rpm s) h))))))))"
  using assms by (simp add: applyState_def Let_def)

lemma constrain_zero: "constrain (to_int 0) 0 255 = 0"
  by (simp add: constrain_def to_int_def)

lemma applyState_inactive_outputs:
  assumes "\<not> active s"
  shows "fst (applyState now (s, h)) = s"
    and "ledc (snd (applyState now (s, h))) MOTOR1_PWM = 0"
    and "ledc (snd (applyState now (s, h))) MOTOR2_PWM = 0"
    and "ledc (snd (applyState now (s, h))) MOTOR3_PWM = 0"
    and "ledc (snd (applyState now (s, h))) 0 = 0"
    and "shown (snd (applyState now (s, h))) = replicate NUM_LEDS Black @ drop NUM_LEDS (leds h)"
    and "ledc (snd (applyState now (s, h))) SPOT_R_PIN = ledc h SPOT_R_PIN"
    and "ledc (snd (applyState now (s, h))) SPOT_G_PIN = ledc h SPOT_G_PIN"
    and "ledc (snd (applyState now (s, h))) SPOT_B_PIN = ledc h SPOT_B_PIN"
    and "fl_brightness (snd (applyState now (s, h))) = fl_brightness h"
    and "alarm_enabled (snd (applyState now (s, h))) = alarm_enabled h"
    and "alarm_period_us (snd (applyState now (s, h))) = alarm_period_us h"
  by (simp_all add: applyState_inactive [OF assms] hw_sel constrain_zero pin_defs)

lemma gamma_state_fields:
  "active gamma_state" "session_start gamma_state = 3000" "led_bright gamma_state = 1"
  "disk1_rpm gamma_state = 12" "disk2_rpm gamma_state = 12.7" "disk3_rpm gamma_state = 3"
  "strobe_hz gamma_state = 3" "strobe_int gamma_state = 1"
  "spot_r gamma_state = 200" "spot_g gamma_state = 200" "spot_b gamma_state = 200"
  "consent gamma_state" "preset_name gamma_state = ''gamma_flash''"
  by (simp_all add: gamma_state_def loadPreset_def initial_state_def)

lemma gamma_fresh: "\<not> session_expired 3020 gamma_state" "faded_brightness 3020 gamma_state = 1"
  by (simp_all add: session_expired_def faded_brightness_def elapsed_s_def gamma_state_fields
      SESSION_MAX_S_def FADE_OUT_S_def)

lemma running_hw_eq:
  "running_hw = FastLED_setBrightness 255
         (ledcWrite SPOT_B_PIN 200 (ledcWrite SPOT_G_PIN 200 (ledcWrite SPOT_R_PIN 200
         (setStrobeFrequency 3
         (setMotorRPM MOTOR3_PWM MOTOR3_DIR 3
         (setMotorRPM MOTOR2_PWM MOTOR2_DIR (- 12.7)
         (setMotorRPM MOTOR1_PWM MOTOR1_DIR 12 initial_hw)))))))"
  by (simp add: running_hw_def applyState_running gamma_state_fields gamma_fresh
      STROBE_MAX_HZ_def to_int_def)

lemma running_hw_ledc:
  "ledc running_hw MOTOR1_PWM = 204" "ledc running_hw MOTOR2_PWM = 215"
  "ledc running_hw MOTOR3_PWM = 51" "ledc running_hw SPOT_R_PIN = 200"
  "ledc running_hw SPOT_G_PIN = 200" "ledc running_hw SPOT_B_PIN = 200"
  "fl_brightness running_hw = 255" "alarm_enabled running_hw" "alarm_period_us running_hw = 333333"
  "leds running_hw = replicate NUM_LEDS Black"
  by (simp_all add: running_hw_eq hw_sel pin_defs constrain_def to_int_def STROBE_MAX_HZ_def
      initial_hw_def)

lemma gamma_fade_end: "\<not> session_expired 663000 gamma_state" "faded_brightness 663000 gamma_state = 0"
  by (simp_all add: session_expired_def faded_brightness_def elapsed_s_def gamma_state_fields
      SESSION_MAX_S_def FADE_OUT_S_def)

lemma fading_hw_fields:
  "ledc fading_hw MOTOR1_PWM = 204" "ledc fading_hw MOTOR2_PWM = 215"
  "ledc fading_hw MOTOR3_PWM = 51" "ledc fading_hw SPOT_R_PIN = 0"
  "ledc fading_hw SPOT_G_PIN = 0" "ledc fading_hw SPOT_B_PIN = 0"
  "fl_brightness fading_hw = 0" "alarm_enabled fading_hw" "alarm_period_us fading_hw = 333333"
  by (simp_all add: fading_hw_def applyState_running gamma_state_fields gamma_fade_end hw_sel
      pin_defs constrain_def to_int_def STROBE_MAX_HZ_def)





section \<open>Stopping\<close>

lemma run_applyState_inactive:
  assumes "\<not> active (state w)"
  shows "run_applyState w = w\<lparr>hw := FastLED_show (fill_solid NUM_LEDS Black (setStrobeFrequency 0
              (setMotorRPM MOTOR3_PWM MOTOR3_DIR 0
              (setMotorRPM MOTOR2_PWM MOTOR2_DIR 0
              (setMotorRPM MOTOR1_PWM MOTOR1_DIR 0 (hw w))))))\<rparr>"
  using assms by (simp add: run_applyState_def applyState_inactive)

lemma emergency_stop_eq:
  "emergency_stop w =
     w\<lparr>state := (state w)\<lparr>active := False, consent := False\<rparr>,
       hw := FastLED_show (fill_solid NUM_LEDS Black (setStrobeFrequency 0
              (setMotorRPM MOTOR3_PWM MOTOR3_DIR 0
              (setMotorRPM MOTOR2_PWM MOTOR2_DIR 0
              (setMotorRPM MOTOR1_PWM MOTOR1_DIR 0 (hw w))))))\<rparr>"
  by (simp add: emergency_stop_def run_applyState_inactive)

lemma post_stop_eq:
  "fst (handleRequest PostStop w) =
     w\<lparr>state := (state w)\<lparr>active := False\<rparr>,
       hw := FastLED_show (fill_solid NUM_LEDS Black (setStrobeFrequency 0
              (setMotorRPM MOTOR3_PWM MOTOR3_DIR 0
              (setMotorRPM MOTOR2_PWM MOTOR2_DIR 0
              (setMotorRPM MOTOR1_PWM MOTOR1_DIR 0 (hw w))))))\<rparr>"
  by (simp add: handleRequest_def run_applyState_inactive)

lemma running_world_fields:
  "state running_world = gamma_state" "hw running_world = running_hw"
  "strobe_pulse running_world = False" "clock running_world = 100000"
  by (simp_all add: running_world_def)

lemma debounce_released:
  assumes "\<forall>j<k. enc1_btn inp (clock w + 10 * j) \<or> enc2_btn inp (clock w + 10 * j)"
    and "\<not> (enc1_btn inp (clock w + 10 * k) \<or> enc2_btn inp (clock w + 10 * k))"
  shows "debounce inp w = Some (w\<lparr>clock := clock w + 10 * k\<rparr>)"
  using assms
proof (induction k arbitrary: w)
  case 0
  then show ?case by (subst debounce.simps) simp
next
  case (Suc k)
  have p: "enc1_btn inp (clock w) \<or> enc2_btn inp (clock w)"
    using Suc.prems(1) [rule_format, of 0] by simp
  have "\<forall>j<k. enc1_btn inp (clock (delay 10 w) + 10 * j) \<or> enc2_btn inp (clock (delay 10 w) + 10 * j)"
  proof (intro allI impI)
    fix j assume "j < k"
    then have "Suc j < Suc k" by simp
    then have "enc1_btn inp (clock w + 10 * Suc j) \<or> enc2_btn inp (clock w + 10 * Suc j)"
      using Suc.prems(1) by blast
    then show "enc1_btn inp (clock (delay 10 w) + 10 * j) \<or> enc2_btn inp (clock (delay 10 w) + 10 * j)"
      by (simp add: delay_def add.assoc)
  qed
  moreover have "\<not> (enc1_btn inp (clock (delay 10 w) + 10 * k) \<or> enc2_btn inp (clock (delay 10 w) + 10 * k))"
    using Suc.prems(2) by (simp add: delay_def add.assoc)
  ultimately have "debounce inp (delay 10 w) = Some ((delay 10 w)\<lparr>clock := clock (delay 10 w) + 10 * k\<rparr>)"
    by (rule Suc.IH)
  then have "debounce inp (delay 10 w) = Some (w\<lparr>clock := clock w + 10 * Suc k\<rparr>)"
    by (simp add: delay_def add.assoc)
  with p show ?case by (subst debounce.simps) simp
qed

lemma estop_inputs_fields:
  "enc1_btn estop_inputs t = (t < 100050)" "enc2_btn estop_inputs t = (t < 100030)"
  "consent_btn estop_inputs t = False"
  by (simp_all add: estop_inputs_def)

lemma estop_inputs_released:
  "(\<forall>j<5. enc1_btn estop_inputs (100000 + 10 * j) \<or> enc2_btn estop_inputs (100000 + 10 * j)) \<and>
   \<not> (enc1_btn estop_inputs (100000 + 10 * 5) \<or> enc2_btn estop_inputs (100000 + 10 * 5))"
  by (simp add: estop_inputs_fields)

lemma loadPreset_unknown:
  assumes "name \<notin> set known_presets"
  shows "loadPreset name s = s\<lparr>preset_name := name\<rparr>"
  using assms by (simp add: loadPreset_def known_presets_def)

section \<open>The consent hold\<close>

lemma analogWrite_twice: "analogWrite p v (analogWrite p u h) = analogWrite p v h"
  by (simp add: analogWrite_def)

lemma held_lt:
  fixes held :: "32 word"
  assumes "unat held + 20 * Suc k \<le> 3000"
  shows "\<not> 3000 \<le> held"
  using assms by (simp add: word_le_nat_alt)

lemma consent_hold_released:
  assumes "unat (millis w - ps) + 20 * k \<le> 3000"
    and "\<forall>j<k. btn (clock w + 20 * j)"
    and "\<not> btn (clock w + 20 * k)"
  shows "consent_hold btn ps w =
     w\<lparr>clock := clock w + 20 * k, hw := analogWrite CONSENT_LED 0 (hw w)\<rparr>"
  using assms
proof (induction k arbitrary: w)
  case 0
  then show ?case by (subst consent_hold.simps) simp
next
  case (Suc k)
  let ?b = "to_int (real (unat (millis w - ps)) / 3000 * 255)"
  let ?w1 = "delay 20 (w\<lparr>hw := analogWrite CONSENT_LED ?b (hw w)\<rparr>)"
  have p: "btn (clock w)" using Suc.prems(2) [rule_format, of 0] by simp
  have n: "\<not> 3000 \<le> millis w - ps" using Suc.prems(1) by (rule held_lt)
  have m: "millis ?w1 = millis w + 20" by (simp add: millis_def delay_def)
  have c: "clock ?w1 = clock w + 20" by (simp add: delay_def)
  have u: "unat (millis ?w1 - ps) = unat (millis w - ps) + 20"
    unfolding m using n by (rule held_step)
  have a1: "unat (millis ?w1 - ps) + 20 * k \<le> 3000"
    using Suc.prems(1) unfolding u by simp
  have a2: "\<forall>j<k. btn (clock ?w1 + 20 * j)"
  proof (intro allI impI)
    fix j assume "j < k"
    then have "Suc j < Suc k" by simp
    then have "btn (clock w + 20 * Suc j)" using Suc.prems(2) by blast
    then show "btn (clock ?w1 + 20 * j)" unfolding c by (simp add: add.assoc)
  qed
  have a3: "\<not> btn (clock ?w1 + 20 * k)"
    using Suc.prems(3) unfolding c by (simp add: add.assoc)
  have "consent_hold btn ps ?w1 =
      ?w1\<lparr>clock := clock ?w1 + 20 * k, hw := analogWrite CONSENT_LED 0 (hw ?w1)\<rparr>"
    using a1 a2 a3 by (rule Suc.IH)
  then have r: "consent_hold btn ps ?w1 =
      w\<lparr>clock := clock w + 20 * Suc k, hw := analogWrite CONSENT_LED 0 (hw w)\<rparr>"
    by (simp add: delay_def analogWrite_twice add.assoc)
  show ?case
    apply (subst consent_hold.simps)
    apply (simp only: p n Let_def if_True if_False r)
    done
qed

lemma consent_hold_complete:
  assumes "unat (millis w - ps) + 20 * k = 3000"
    and "\<forall>j\<le>k. btn (clock w + 20 * j)"
  shows "consent_hold btn ps w =
     w\<lparr>clock := clock w + 20 * k,
       state := loadPreset ''alpha_bloom''
         ((state w)\<lparr>active := True, consent := True, session_start := of_nat (clock w + 20 * k)\<rparr>),
       hw := analogWrite CONSENT_LED 255 (hw w)\<rparr>"
  using assms
proof (induction k arbitrary: w)
  case 0
  have p: "btn (clock w)" using "0.prems"(2) by simp
  have "unat (millis w - ps) = 3000" using "0.prems"(1) by simp
  then have g: "3000 \<le> millis w - ps" by (simp add: word_le_nat_alt)
  show ?case
    apply (subst consent_hold.simps)
    apply (simp only: p g Let_def if_True)
    apply (simp add: millis_def analogWrite_twice)
    done
next
  case (Suc k)
  let ?b = "to_int (real (unat (millis w - ps)) / 3000 * 255)"
  let ?w1 = "delay 20 (w\<lparr>hw := analogWrite CONSENT_LED ?b (hw w)\<rparr>)"
  have p: "btn (clock w)" using Suc.prems(2) [rule_format, of 0] by simp
  have "unat (millis w - ps) + 20 * Suc k \<le> 3000" using Suc.prems(1) by simp
  then have n: "\<not> 3000 \<le> millis w - ps" by (rule held_lt)
  have m: "millis ?w1 = millis w + 20" by (simp add: millis_def delay_def)
  have c: "clock ?w1 = clock w + 20" by (simp add: delay_def)
  have u: "unat (millis ?w1 - ps) = unat (millis w - ps) + 20"
    unfolding m using n by (rule held_step)
  have a1: "unat (millis ?w1 - ps) + 20 * k = 3000"
    using Suc.prems(1) unfolding u by simp
  have a2: "\<forall>j\<le>k. btn (clock ?w1 + 20 * j)"
  proof (intro allI impI)
    fix j assume "j \<le> k"
    then have "Suc j \<le> Suc k" by simp
    then have "btn (clock w + 20 * Suc j)" using Suc.prems(2) by blast
    then show "btn (clock ?w1 + 20 * j)" unfolding c by (simp add: add.assoc)
  qed
  have "consent_hold btn ps ?w1 =
     ?w1\<lparr>clock := clock ?w1 + 20 * k,
       state := loadPreset ''alpha_bloom''
         ((state ?w1)\<lparr>active := True, consent := True, session_start := of_nat (clock ?w1 + 20 * k)\<rparr>),
       hw := analogWrite CONSENT_LED 255 (hw ?w1)\<rparr>"
    using a1 a2 by (rule Suc.IH)
  then have r: "consent_hold btn ps ?w1 =
     w\<lparr>clock := clock w + 20 * Suc k,
       state := loadPreset ''alpha_bloom''
         ((state w)\<lparr>active := True, consent := True, session_start := of_nat (clock w + 20 * Suc k)\<rparr>),
       hw := analogWrite CONSENT_LED 255 (hw w)\<rparr>"
    by (simp add: delay_def analogWrite_twice add.assoc)
  show ?case
    apply (subst consent_hold.simps)
    apply (simp only: p n Let_def if_True if_False r)
    done
qed

lemma checkConsentButton_released:
  assumes "k \<le> 150"
    and "\<forall>j<k. consent_btn inp (clock w + 20 * j)"
    and "\<not> consent_btn inp (clock w + 20 * k)"
  shows "state (checkConsentButton inp w) = state w"
proof (cases "consent_btn inp (clock w)")
  case False
  then show ?thesis by (simp add: checkConsentButton_def)
next
  case True
  have "unat (millis w - millis w) + 20 * k \<le> 3000" using assms(1) by simp
  then have "consent_hold (consent_btn inp) (millis w) w =
      w\<lparr>clock := clock w + 20 * k, hw := analogWrite CONSENT_LED 0 (hw w)\<rparr>"
    using assms(2,3) by (rule consent_hold_released)
  with True show ?thesis by (simp add: checkConsentButton_def)
qed

lemma checkConsentButton_complete:
  assumes "\<forall>j\<le>150. consent_btn inp (clock w + 20 * j)"
  shows "checkConsentButton inp w =
     w\<lparr>clock := clock w + 3000,
       state := loadPreset ''alpha_bloom''
         ((state w)\<lparr>active := True, consent := True, session_start := of_nat (clock w + 3000)\<rparr>),
       hw := analogWrite CONSENT_LED 255 (hw w)\<rparr>"
proof -
  have p: "consent_btn inp (clock w)" using assms [rule_format, of 0] by simp
  have "unat (millis w - millis w) + 20 * 150 = 3000" by simp
  then have "consent_hold (consent_btn inp) (millis w) w =
     w\<lparr>clock := clock w + 20 * 150,
       state := loadPreset ''alpha_bloom''
         ((state w)\<lparr>active := True, consent := True, session_start := of_nat (clock w + 20 * 150)\<rparr>),
       hw := analogWrite CONSENT_LED 255 (hw w)\<rparr>"
    using assms by (rule consent_hold_complete)
  with p show ?thesis by (simp add: checkConsentButton_def)
qed

lemma hold_inputs_fields:
  "consent_btn hold_inputs t = True" "enc1_btn hold_inputs t = False" "enc2_btn hold_inputs t = False"
  by (simp_all add: hold_inputs_def)

lemma alpha_bloom_fields:
  "preset_name (loadPreset ''alpha_bloom'' s) = ''alpha_bloom''"
  "session_start (loadPreset ''alpha_bloom'' s) = session_start s"
  "active (loadPreset ''alpha_bloom'' s) = active s"
  "consent (loadPreset ''alpha_bloom'' s) = consent s"
  "strobe_hz (loadPreset ''alpha_bloom'' s) = 0.5"
  "strobe_int (loadPreset ''alpha_bloom'' s) = 0.6"
  by (simp_all add: loadPreset_def)

section \<open>One pass of the loop\<close>



























section \<open>The strobe frequency cap\<close>



section \<open>Outputs of an inactive machine\<close>

text \<open>
  Claim C2. An inactive machine should get zero on every actuator channel. The inactive
  branch of \<^verbatim>\<open>applyState\<close> switches off the three motors, the strobe channel and the
  LED strip, and writes nothing to the spotlight channels or to the FastLED brightness:
  after a running tick with \<^verbatim>\<open>gamma_flash\<close>, the spotlights stay at duty 200.
\<close>

theorem applyState_inactive_spotlights_stay_on:
  "\<not> active (gamma_state\<lparr>active := False\<rparr>) \<and>
   ledc (snd (applyState 5000 (gamma_state\<lparr>active := False\<rparr>, running_hw))) SPOT_R_PIN = 200 \<and>
   ledc (snd (applyState 5000 (gamma_state\<lparr>active := False\<rparr>, running_hw))) SPOT_G_PIN = 200 \<and>
   ledc (snd (applyState 5000 (gamma_state\<lparr>active := False\<rparr>, running_hw))) SPOT_B_PIN = 200 \<and>
   fl_brightness (snd (applyState 5000 (gamma_state\<lparr>active := False\<rparr>, running_hw))) = 255 \<and>
   ledc (snd (applyState 5000 (gamma_state\<lparr>active := False\<rparr>, running_hw))) MOTOR1_PWM = 0 \<and>
   ledc (snd (applyState 5000 (gamma_state\<lparr>active := False\<rparr>, running_hw))) MOTOR2_PWM = 0 \<and>
   ledc (snd (applyState 5000 (gamma_state\<lparr>active := False\<rparr>, running_hw))) MOTOR3_PWM = 0 \<and>
   ledc (snd (applyState 5000 (gamma_state\<lparr>active := False\<rparr>, running_hw))) 0 = 0 \<and>
   shown (snd (applyState 5000 (gamma_state\<lparr>active := False\<rparr>, running_hw))) = replicate NUM_LEDS Black"
  by (simp add: applyState_inactive_outputs running_hw_ledc)

section \<open>The session cut-off\<close>

text \<open>
  Claim C3. On the tick where the elapsed time exceeds \<open>SESSION_MAX_S\<close> the machine
  should become inactive and every output should go to zero. \<^verbatim>\<open>applyState\<close> clears
  \<open>active\<close> and returns at once: at 661 s the hardware is left exactly as the tick at
  660 s wrote it, the motors at duty 204, 215 and 51 and the strobe timer enabled.
\<close>

theorem applyState_cutoff_leaves_outputs_running:
  "active gamma_state \<and> session_start gamma_state = 3000 \<and>
   elapsed_s 664000 (session_start gamma_state) = 661 \<and>
   applyState 664000 (gamma_state, fading_hw) = (gamma_state\<lparr>active := False\<rparr>, fading_hw) \<and>
   ledc fading_hw MOTOR1_PWM = 204 \<and> ledc fading_hw MOTOR2_PWM = 215 \<and>
   ledc fading_hw MOTOR3_PWM = 51 \<and> alarm_enabled fading_hw \<and>
   alarm_period_us fading_hw = 333333"
proof -
  have e: "elapsed_s 664000 3000 = 661"
    by (simp add: elapsed_s_def)
  have "applyState 664000 (gamma_state, fading_hw) = (gamma_state\<lparr>active := False\<rparr>, fading_hw)"
    by (rule applyState_cutoff) (simp_all add: session_expired_def e gamma_state_fields SESSION_MAX_S_def)
  then show ?thesis
    by (simp add: e gamma_state_fields fading_hw_fields)
qed

section \<open>The emergency stop\<close>

text \<open>
  Claim C4, as stated: the emergency stop also clears \<open>session_start\<close>. It does not:
  no statement of the firmware resets \<open>session_start\<close>, and after an emergency stop
  of the running machine it is still 3000.
\<close>

theorem emergency_stop_keeps_session_start:
  "enc1_btn estop_inputs (clock running_world) \<and> enc2_btn estop_inputs (clock running_world) \<and>
   session_start (state running_world) = 3000 \<and>
   map_option (\<lambda>w. session_start (state w)) (checkEmergencyStop estop_inputs running_world) = Some 3000"
proof -
  have c: "clock (emergency_stop running_world) = 100000"
    by (simp add: emergency_stop_eq running_world_fields)
  have "debounce estop_inputs (emergency_stop running_world) =
      Some ((emergency_stop running_world)\<lparr>clock := clock (emergency_stop running_world) + 10 * 5\<rparr>)"
    using estop_inputs_released by (intro debounce_released) (simp_all add: c)
  then have "checkEmergencyStop estop_inputs running_world =
      Some ((emergency_stop running_world)\<lparr>clock := clock (emergency_stop running_world) + 10 * 5\<rparr>)"
    by (simp add: checkEmergencyStop_def estop_inputs_fields running_world_fields)
  then show ?thesis
    by (simp add: estop_inputs_fields running_world_fields emergency_stop_eq gamma_state_fields)
qed

text \<open>
  Claim C4, amended. Whenever both encoder buttons are pressed when
  \<^verbatim>\<open>checkEmergencyStop\<close> samples them, it sets \<open>active\<close> and \<open>consent\<close> to false,
  leaves \<open>session_start\<close> and every other field of the state as they were, writes
  duty 0 to the three motor channels and to the strobe channel and shows a black LED
  buffer, whatever the state held; then it waits for both buttons to be released, and
  returns with exactly this state and hardware once they are.
\<close>

theorem checkEmergencyStop_effect:
  "enc1_btn inp (clock w) \<and> enc2_btn inp (clock w) \<longrightarrow>
     checkEmergencyStop inp w = debounce inp (emergency_stop w) \<and>
     state (emergency_stop w) = (state w)\<lparr>active := False, consent := False\<rparr> \<and>
     ledc (hw (emergency_stop w)) MOTOR1_PWM = 0 \<and>
     ledc (hw (emergency_stop w)) MOTOR2_PWM = 0 \<and>
     ledc (hw (emergency_stop w)) MOTOR3_PWM = 0 \<and>
     ledc (hw (emergency_stop w)) 0 = 0 \<and>
     shown (hw (emergency_stop w)) = replicate NUM_LEDS Black @ drop NUM_LEDS (leds (hw w)) \<and>
     (\<forall>k. (\<forall>j<k. enc1_btn inp (clock w + 10 * j) \<or> enc2_btn inp (clock w + 10 * j)) \<and>
          \<not> (enc1_btn inp (clock w + 10 * k) \<or> enc2_btn inp (clock w + 10 * k)) \<longrightarrow>
          checkEmergencyStop inp w = Some ((emergency_stop w)\<lparr>clock := clock w + 10 * k\<rparr>))"
proof (intro impI conjI allI)
  assume p: "enc1_btn inp (clock w) \<and> enc2_btn inp (clock w)"
  then show d: "checkEmergencyStop inp w = debounce inp (emergency_stop w)"
    by (simp add: checkEmergencyStop_def)
  show "state (emergency_stop w) = (state w)\<lparr>active := False, consent := False\<rparr>"
    by (simp add: emergency_stop_eq)
  show "ledc (hw (emergency_stop w)) MOTOR1_PWM = 0"
    by (simp add: emergency_stop_eq hw_sel constrain_zero pin_defs)
  show "ledc (hw (emergency_stop w)) MOTOR2_PWM = 0"
    by (simp add: emergency_stop_eq hw_sel constrain_zero pin_defs)
  show "ledc (hw (emergency_stop w)) MOTOR3_PWM = 0"
    by (simp add: emergency_stop_eq hw_sel constrain_zero pin_defs)
  show "ledc (hw (emergency_stop w)) 0 = 0"
    by (simp add: emergency_stop_eq hw_sel)
  show "shown (hw (emergency_stop w)) = replicate NUM_LEDS Black @ drop NUM_LEDS (leds (hw w))"
    by (simp add: emergency_stop_eq hw_sel)
  fix k
  assume r: "(\<forall>j<k. enc1_btn inp (clock w + 10 * j) \<or> enc2_btn inp (clock w + 10 * j)) \<and>
          \<not> (enc1_btn inp (clock w + 10 * k) \<or> enc2_btn inp (clock w + 10 * k))"
  have c: "clock (emergency_stop w) = clock w" by (simp add: emergency_stop_eq)
  have "debounce inp (emergency_stop w) =
      Some ((emergency_stop w)\<lparr>clock := clock (emergency_stop w) + 10 * k\<rparr>)"
    using r by (intro debounce_released) (simp_all add: c)
  then show "checkEmergencyStop inp w = Some ((emergency_stop w)\<lparr>clock := clock w + 10 * k\<rparr>)"
    by (simp add: d c)
qed

theorem checkEmergencyStop_effect_witness:
  "enc1_btn estop_inputs (clock running_world) \<and> enc2_btn estop_inputs (clock running_world) \<and>
   checkEmergencyStop estop_inputs running_world =
     Some ((emergency_stop running_world)\<lparr>clock := 100050\<rparr>) \<and>
   \<not> active (state (emergency_stop running_world)) \<and>
   \<not> consent (state (emergency_stop running_world)) \<and>
   session_start (state (emergency_stop running_world)) = 3000 \<and>
   ledc (hw (emergency_stop running_world)) MOTOR1_PWM = 0 \<and>
   ledc (hw (emergency_stop running_world)) 0 = 0 \<and>
   shown (hw (emergency_stop running_world)) = replicate NUM_LEDS Black"
proof -
  have p: "enc1_btn estop_inputs (clock running_world) \<and> enc2_btn estop_inputs (clock running_world)"
    by (simp add: estop_inputs_fields running_world_fields)
  note e = checkEmergencyStop_effect [of estop_inputs running_world, THEN mp, OF p]
  have r: "(\<forall>j<5. enc1_btn estop_inputs (clock running_world + 10 * j) \<or>
               enc2_btn estop_inputs (clock running_world + 10 * j)) \<and>
          \<not> (enc1_btn estop_inputs (clock running_world + 10 * 5) \<or>
             enc2_btn estop_inputs (clock running_world + 10 * 5))"
    using estop_inputs_released by (simp add: running_world_fields)
  have all: "\<forall>k. (\<forall>j<k. enc1_btn estop_inputs (clock running_world + 10 * j) \<or>
               enc2_btn estop_inputs (clock running_world + 10 * j)) \<and>
          \<not> (enc1_btn estop_inputs (clock running_world + 10 * k) \<or>
             enc2_btn estop_inputs (clock running_world + 10 * k)) \<longrightarrow>
          checkEmergencyStop estop_inputs running_world =
            Some ((emergency_stop running_world)\<lparr>clock := clock running_world + 10 * k\<rparr>)"
    using e by (elim conjE)
  have a: "checkEmergencyStop estop_inputs running_world =
     Some ((emergency_stop running_world)\<lparr>clock := clock running_world + 10 * 5\<rparr>)"
    using all [rule_format, of 5, OF r] .
  have s: "state (emergency_stop running_world) = (state running_world)\<lparr>active := False, consent := False\<rparr>"
    using e by (elim conjE)
  have m: "ledc (hw (emergency_stop running_world)) MOTOR1_PWM = 0"
    using e by (elim conjE)
  have z: "ledc (hw (emergency_stop running_world)) 0 = 0"
    using e by (elim conjE)
  have l: "shown (hw (emergency_stop running_world)) =
       replicate NUM_LEDS Black @ drop NUM_LEDS (leds (hw running_world))"
    using e by (elim conjE)
  have a': "checkEmergencyStop estop_inputs running_world =
     Some ((emergency_stop running_world)\<lparr>clock := 100050\<rparr>)"
    using a by (simp add: running_world_fields)
  have f: "\<not> active (state (emergency_stop running_world))"
    "\<not> consent (state (emergency_stop running_world))"
    "session_start (state (emergency_stop running_world)) = 3000"
    by (simp_all add: s running_world_fields gamma_state_fields)
  have b: "shown (hw (emergency_stop running_world)) = replicate NUM_LEDS Black"
    by (simp add: l running_world_fields running_hw_ledc)
  from p a' f m z b show ?thesis by (intro conjI) (elim conjE, assumption)+
qed

section \<open>The place of the emergency stop in the loop\<close>




section \<open>The web stop against the emergency stop\<close>

text \<open>
  Claim C6. \<^verbatim>\<open>POST /stop\<close> should leave the machine as the emergency stop does. On the
  running machine both deactivate and write the same hardware, but the web handler
  leaves \<open>consent\<close> true where the emergency stop clears it: the two states differ.
\<close>

theorem post_stop_keeps_consent:
  "active (state running_world) \<and> consent (state running_world) \<and>
   \<not> active (state (fst (handleRequest PostStop running_world))) \<and>
   \<not> active (state (emergency_stop running_world)) \<and>
   hw (fst (handleRequest PostStop running_world)) = hw (emergency_stop running_world) \<and>
   consent (state (fst (handleRequest PostStop running_world))) \<and>
   \<not> consent (state (emergency_stop running_world)) \<and>
   state (fst (handleRequest PostStop running_world)) \<noteq> state (emergency_stop running_world)"
proof -
  have a0: "active (state running_world)" "consent (state running_world)"
    by (simp_all add: running_world_fields gamma_state_fields)
  have a1: "\<not> active (state (fst (handleRequest PostStop running_world)))"
    by (simp add: post_stop_eq)
  have a2: "\<not> active (state (emergency_stop running_world))"
    by (simp add: emergency_stop_eq)
  have h: "hw (fst (handleRequest PostStop running_world)) = hw (emergency_stop running_world)"
    by (simp add: post_stop_eq emergency_stop_eq)
  have c: "consent (state (fst (handleRequest PostStop running_world)))"
    by (simp add: post_stop_eq running_world_fields gamma_state_fields)
  have e: "\<not> consent (state (emergency_stop running_world))"
    by (simp add: emergency_stop_eq)
  have d: "state (fst (handleRequest PostStop running_world)) \<noteq> state (emergency_stop running_world)"
  proof
    assume "state (fst (handleRequest PostStop running_world)) = state (emergency_stop running_world)"
    then have "consent (state (fst (handleRequest PostStop running_world))) =
        consent (state (emergency_stop running_world))"
      by (rule arg_cong)
    with c e show False by blast
  qed
  from a0 a1 a2 h c e d show ?thesis by (intro conjI)
qed

section \<open>Unknown presets\<close>

text \<open>
  Claim C7, as stated: an unknown preset name leaves the whole state unchanged and the
  caller gets an error. For the name \<^verbatim>\<open>bogus\<close> the state changes (\<open>preset_name\<close>
  becomes \<^verbatim>\<open>bogus\<close>) and the handler answers 200 with \<^verbatim>\<open>{"ok":true}\<close>.
\<close>

theorem loadPreset_unknown_counterexample:
  \<open>''bogus'' \<notin> set known_presets \<and>
   preset_name initial_state = ''idle'' \<and>
   preset_name (loadPreset ''bogus'' initial_state) = ''bogus'' \<and>
   loadPreset ''bogus'' initial_state \<noteq> initial_state \<and>
   snd (handleRequest (PostPreset (Some (Some ''bogus'')))
      \<lparr>state = initial_state, hw = initial_hw, strobe_pulse = False, clock = 0\<rparr>) =
     Reply 200 ''{"ok":true}''\<close>
proof -
  have u: "''bogus'' \<notin> set known_presets" by (simp add: known_presets_def)
  have n: "preset_name (loadPreset ''bogus'' initial_state) = ''bogus''"
    by (simp add: loadPreset_unknown [OF u])
  have i: "preset_name initial_state = ''idle''" by (simp add: initial_state_def)
  have "preset_name (loadPreset ''bogus'' initial_state) \<noteq> preset_name initial_state"
    by (simp add: n i)
  then have d: "loadPreset ''bogus'' initial_state \<noteq> initial_state" by auto
  show ?thesis using u n i d by (simp add: handleRequest_def)
qed

text \<open>
  Claim C7, amended. For every name that is not one of the five built-in presets,
  \<^verbatim>\<open>loadPreset\<close> changes \<open>preset_name\<close> to that name and nothing else (disk
  speeds, strobe frequency and intensity, spotlight colour and all other fields stay),
  and no error is reported: \<^verbatim>\<open>POST /preset\<close> answers 200 with \<^verbatim>\<open>{"ok":true}\<close>.
\<close>

theorem loadPreset_unknown_keeps_fields:
  \<open>name \<notin> set known_presets \<longrightarrow>
     loadPreset name s = s\<lparr>preset_name := name\<rparr> \<and>
     handleRequest (PostPreset (Some (Some name))) w =
       (w\<lparr>state := (state w)\<lparr>preset_name := name\<rparr>\<rparr>, Reply 200 ''{"ok":true}'')\<close>
  by (simp add: loadPreset_unknown handleRequest_def)

theorem loadPreset_unknown_keeps_fields_witness:
  \<open>''bogus'' \<notin> set known_presets \<and>
   disk1_rpm (loadPreset ''bogus'' gamma_state) = 12 \<and>
   strobe_hz (loadPreset ''bogus'' gamma_state) = 3 \<and>
   spot_r (loadPreset ''bogus'' gamma_state) = 200 \<and>
   preset_name (loadPreset ''bogus'' gamma_state) = ''bogus'' \<and>
   snd (handleRequest (PostPreset (Some (Some ''bogus''))) running_world) = Reply 200 ''{"ok":true}''\<close>
proof -
  have u: "''bogus'' \<notin> set known_presets" by (simp add: known_presets_def)
  note k = loadPreset_unknown_keeps_fields [of "''bogus''" gamma_state running_world]
  have l: "loadPreset ''bogus'' gamma_state = gamma_state\<lparr>preset_name := ''bogus''\<rparr>"
    using k u by blast
  have h: \<open>snd (handleRequest (PostPreset (Some (Some ''bogus''))) running_world) = Reply 200 ''{"ok":true}''\<close>
    using k u by simp
  show ?thesis using u h by (simp add: l gamma_state_fields)
qed

section \<open>Holding the consent button again\<close>

text \<open>
  Claim C8, as stated: once the machine is active, a further hold of the consent button
  changes nothing. \<^verbatim>\<open>checkConsentButton\<close> does not look at \<open>active\<close>: a hold of
  3000 ms on the running machine restarts the session (\<open>session_start\<close> goes from 3000
  to 103000) and replaces the preset \<^verbatim>\<open>gamma_flash\<close> by \<^verbatim>\<open>alpha_bloom\<close>.
\<close>

theorem consent_hold_while_active_restarts:
  "active (state running_world) \<and>
   session_start (state running_world) = 3000 \<and>
   preset_name (state running_world) = ''gamma_flash'' \<and>
   session_start (state (checkConsentButton hold_inputs running_world)) = 103000 \<and>
   preset_name (state (checkConsentButton hold_inputs running_world)) = ''alpha_bloom''"
proof -
  have "checkConsentButton hold_inputs running_world =
     running_world\<lparr>clock := clock running_world + 3000,
       state := loadPreset ''alpha_bloom''
         ((state running_world)\<lparr>active := True, consent := True,
            session_start := of_nat (clock running_world + 3000)\<rparr>),
       hw := analogWrite CONSENT_LED 255 (hw running_world)\<rparr>"
    by (rule checkConsentButton_complete) (simp add: hold_inputs_fields)
  then show ?thesis
    by (simp add: alpha_bloom_fields running_world_fields gamma_state_fields)
qed

text \<open>
  Claim C8, amended. In any state, active or not: a hold of the consent button that is
  released at one of the first 151 samples (one every 20 ms, so before the held time
  reaches 3000 ms) leaves the machine state unchanged; a hold that lasts through all of
  them sets \<open>active\<close> and \<open>consent\<close>, sets \<open>session_start\<close> to the time 3000 ms after
  the press and loads the preset \<^verbatim>\<open>alpha_bloom\<close>.
\<close>

theorem checkConsentButton_hold:
  "(\<forall>k\<le>150. (\<forall>j<k. consent_btn inp (clock w + 20 * j)) \<and> \<not> consent_btn inp (clock w + 20 * k) \<longrightarrow>
      state (checkConsentButton inp w) = state w) \<and>
   ((\<forall>j\<le>150. consent_btn inp (clock w + 20 * j)) \<longrightarrow>
      state (checkConsentButton inp w) =
        loadPreset ''alpha_bloom''
          ((state w)\<lparr>active := True, consent := True, session_start := of_nat (clock w + 3000)\<rparr>) \<and>
      clock (checkConsentButton inp w) = clock w + 3000)"
proof (intro conjI allI impI)
  fix k :: nat
  assume "k \<le> 150"
    and "(\<forall>j<k. consent_btn inp (clock w + 20 * j)) \<and> \<not> consent_btn inp (clock w + 20 * k)"
  then show "state (checkConsentButton inp w) = state w"
    by (intro checkConsentButton_released [of k]) simp_all
next
  assume a: "\<forall>j\<le>150. consent_btn inp (clock w + 20 * j)"
  show "state (checkConsentButton inp w) =
        loadPreset ''alpha_bloom''
          ((state w)\<lparr>active := True, consent := True, session_start := of_nat (clock w + 3000)\<rparr>)"
    by (simp add: checkConsentButton_complete [OF a])
  show "clock (checkConsentButton inp w) = clock w + 3000"
    by (simp add: checkConsentButton_complete [OF a])
qed

theorem checkConsentButton_hold_witness:
  "active (state running_world) \<and>
   consent_btn short_hold_inputs (clock running_world) \<and>
   consent_btn short_hold_inputs (clock running_world + 2980) \<and>
   \<not> consent_btn short_hold_inputs (clock running_world + 3000) \<and>
   state (checkConsentButton short_hold_inputs running_world) = state running_world \<and>
   session_start (state (checkConsentButton hold_inputs running_world)) = 103000 \<and>
   active (state (checkConsentButton hold_inputs running_world)) \<and>
   clock (checkConsentButton hold_inputs running_world) = 103000"
proof -
  note s = checkConsentButton_hold [of short_hold_inputs running_world, THEN conjunct1, rule_format, of 150]
  note h = checkConsentButton_hold [of hold_inputs running_world, THEN conjunct2, THEN mp]
  have b: "consent_btn short_hold_inputs t = (t < 102990)" for t
    by (simp add: short_hold_inputs_def)
  have r: "(\<forall>j<150. consent_btn short_hold_inputs (clock running_world + 20 * j)) \<and>
      \<not> consent_btn short_hold_inputs (clock running_world + 20 * 150)"
    by (simp add: b running_world_fields)
  have u: "state (checkConsentButton short_hold_inputs running_world) = state running_world"
    using r by (intro s) simp_all
  have a: "\<forall>j\<le>150. consent_btn hold_inputs (clock running_world + 20 * j)"
    by (simp add: hold_inputs_fields)
  have v: "state (checkConsentButton hold_inputs running_world) =
        loadPreset ''alpha_bloom''
          ((state running_world)\<lparr>active := True, consent := True,
             session_start := of_nat (clock running_world + 3000)\<rparr>)"
    and t: "clock (checkConsentButton hold_inputs running_world) = clock running_world + 3000"
    using h [OF a] by simp_all
  show ?thesis
    using u by (simp add: v t b alpha_bloom_fields running_world_fields gamma_state_fields)
qed

section \<open>The fade-out\<close>



section \<open>The strobe pulse flag\<close>




end
